theory Spec2Isabelle
  imports Main
begin

section \<open>Values, commands and exceptions\<close>

text \<open>
  Python values that travel through keyword arguments, host data and facts. Only the
  shapes that occur in the connector, its tests and the two operations are listed.
  \<open>truthy\<close> is Python's truth test (\<^verbatim>\<open>if x:\<close>).
\<close>

datatype pyval = VNone | VBool bool | VInt int | VStr string | VInts "int list"

fun truthy :: "pyval \<Rightarrow> bool" where
  "truthy VNone = False"
| "truthy (VBool b) = b"
| "truthy (VInt i) = (i \<noteq> 0)"
| "truthy (VStr s) = (s \<noteq> [])"
| "truthy (VInts xs) = (xs \<noteq> [])"

text \<open>
  \<^verbatim>\<open>StringCommand(*bits)\<close> keeps its bits in order. A bit is a plain \<^verbatim>\<open>str\<close>
  (inserted as it is) or a \<^verbatim>\<open>QuoteString(obj)\<close> (quoted when the command is rendered).
  The object of a \<^verbatim>\<open>QuoteString\<close> is a string or a whole command; the service operation can
  also put a list or \<^verbatim>\<open>None\<close> there.
\<close>

datatype arg = Raw string | QuoteString quotable
and quotable = QStr string | QCommand string_command | QList "string list" | QNone
and string_command = StringCommand "arg list"

text \<open>\<^verbatim>\<open>**arguments\<close>: a dict, in insertion order, with distinct keys.\<close>

type_synonym arguments = "(string \<times> pyval) list"

datatype exn =
    PyinfraError string
  | ConnectError string
  | OperationValueError string
  | ConfigurationError string
  | AttributeError string
  | IOError "string list"
  | FileNotFoundError string
  | FileExistsError string
  | UnicodeDecodeError
  | OtherError string

text \<open>
  Modelled from the spec: \<^verbatim>\<open>CommandOutput\<close> (connectors/util.py is not among the sources).
  Section 3: captured stdout and stderr, each an ordered sequence of lines, plus the raw
  exit code of the process.
\<close>

record command_output =
  stdout :: "string list"
  stderr :: "string list"
  exit_code :: int

section \<open>Host, connector and the world outside\<close>

text \<open>
  \<^verbatim>\<open>host.data\<close>: \<^verbatim>\<open>jail\<close> is required (\<^verbatim>\<open>ConnectorData\<close>), the three others are read with
  \<^verbatim>\<open>.get\<close> and are \<open>None\<close> when absent.
\<close>

record host_data =
  jail :: string
  noclean :: "bool option"
  jail_user :: "string option"
  host_user :: "string option"

record host =
  data :: host_data
  print_prefix :: string

text \<open>\<^verbatim>\<open>self.jail\<close> has no value before \<^verbatim>\<open>connect\<close> assigns it.\<close>

record connector =
  self_host :: host
  self_jail :: "string option"

text \<open>Truth tests of \<^verbatim>\<open>host.data.get(...)\<close>.\<close>

definition flag_set :: "bool option \<Rightarrow> bool" where
  "flag_set x = (x = Some True)"

definition name_set :: "string option \<Rightarrow> bool" where
  "name_set x = (case x of None \<Rightarrow> False | Some s \<Rightarrow> s \<noteq> [])"

text \<open>A \<^verbatim>\<open>filename_or_io\<close> parameter: a path, or a file object (known by its identity).\<close>

datatype file_or_io = Filename string | FileObject nat

text \<open>What \<^verbatim>\<open>read()\<close> returns: text or bytes. Text is kept as its UTF-8 bytes.\<close>

datatype file_data = Str string | Bytes string

fun encode :: "file_data \<Rightarrow> string" where
  "encode (Str s) = s"
| "encode (Bytes b) = b"

type_synonym filesystem = "string \<rightharpoonup> string"

text \<open>Everything the connector does to the outside, in the order it does it.\<close>

datatype event =
    EvLocalConnect
  | EvShell string
  | EvRun string_command bool bool arguments
  | EvMkstemp string
  | EvFileIORead file_or_io
  | EvWrite string string
  | EvRead string
  | EvFileIOOpen file_or_io
  | EvFileIOWrite file_or_io string
  | EvRemove string
  | EvEcho string

record world =
  fs :: filesystem
  trace :: "event list"

text \<open>
  The collaborators of the connector that are not among the sources, as parameters:
  \<^item> \<open>control_argument_names\<close>, \<open>command_argument_names\<close>: the option names owned by the two
    layers of section 4.2;
  \<^item> \<open>make_unix_command_for_host\<close>: the command synthesizer of section 4.3;
  \<^item> \<open>shell\<close>: \<^verbatim>\<open>pyinfra.local.shell\<close>, which returns the output of a command or raises
    \<^verbatim>\<open>PyinfraError\<close> with a message (\<open>Inl\<close>);
  \<^item> \<open>inner_run_shell_command\<close>: \<^verbatim>\<open>run_shell_command\<close> of the inner connector; the child
    process may change the file system in any way, and the call may raise;
  \<^item> \<open>tempname\<close>: the name \<^verbatim>\<open>mkstemp\<close> picks;
  \<^item> \<open>read_file_io\<close>, \<open>open_file_io\<close>, \<open>write_file_io\<close>: \<^verbatim>\<open>get_file_io\<close> of api/util.py, opening
    and reading a source, opening a sink for writing, writing to it; each may raise.
\<close>

record env =
  control_argument_names :: "string list"
  command_argument_names :: "string list"
  make_unix_command_for_host :: "host \<Rightarrow> string_command \<Rightarrow> arguments \<Rightarrow> string_command"
  shell :: "string \<Rightarrow> string + string"
  inner_run_shell_command ::
    "string_command \<Rightarrow> bool \<Rightarrow> bool \<Rightarrow> arguments \<Rightarrow> filesystem
       \<Rightarrow> (exn + bool \<times> command_output) \<times> filesystem"
  tempname :: "filesystem \<Rightarrow> string"
  read_file_io :: "file_or_io \<Rightarrow> filesystem \<Rightarrow> exn + file_data"
  open_file_io :: "file_or_io \<Rightarrow> filesystem \<Rightarrow> exn option \<times> filesystem"
  write_file_io :: "file_or_io \<Rightarrow> string \<Rightarrow> filesystem \<Rightarrow> exn option \<times> filesystem"

section \<open>Primitive steps\<close>

definition log_event :: "event \<Rightarrow> world \<Rightarrow> world" where
  "log_event e w = w\<lparr>trace := trace w @ [e]\<rparr>"

text \<open>
  \<^verbatim>\<open>mkstemp()\<close> creates a new, empty file under a name that was not in use, and raises when
  it cannot. The descriptor it also returns is dropped by the connector.
\<close>

definition mkstemp :: "env \<Rightarrow> world \<Rightarrow> (exn + string) \<times> world" where
  "mkstemp env w =
     (let t = tempname env (fs w) in
      if fs w t \<noteq> None then (Inl (FileExistsError t), w)
      else (Inr t, log_event (EvMkstemp t) (w\<lparr>fs := (fs w)(t \<mapsto> [])\<rparr>)))"

text \<open>\<^verbatim>\<open>os.remove(path)\<close> raises \<^verbatim>\<open>FileNotFoundError\<close> when there is no such file.\<close>

definition os_remove :: "string \<Rightarrow> world \<Rightarrow> exn option \<times> world" where
  "os_remove p w =
     (if fs w p = None then (Some (FileNotFoundError p), log_event (EvRemove p) w)
      else (None, log_event (EvRemove p) (w\<lparr>fs := (fs w)(p := None)\<rparr>)))"

text \<open>\<^verbatim>\<open>local.shell(command)\<close>.\<close>

definition local_shell :: "env \<Rightarrow> string \<Rightarrow> world \<Rightarrow> (exn + string) \<times> world" where
  "local_shell env c w =
     (case shell env c of
        Inl msg \<Rightarrow> (Inl (PyinfraError msg), log_event (EvShell c) w)
      | Inr out \<Rightarrow> (Inr out, log_event (EvShell c) w))"

text \<open>\<^verbatim>\<open>self.local.run_shell_command(command, print_output=..., print_input=..., **kw)\<close>.\<close>

definition local_run_shell_command ::
  "env \<Rightarrow> string_command \<Rightarrow> bool \<Rightarrow> bool \<Rightarrow> arguments \<Rightarrow> world
     \<Rightarrow> (exn + bool \<times> command_output) \<times> world" where
  "local_run_shell_command env c print_output print_input kw w =
     (case inner_run_shell_command env c print_output print_input kw (fs w) of
        (r, fs') \<Rightarrow> (r, log_event (EvRun c print_output print_input kw) (w\<lparr>fs := fs'\<rparr>)))"

text \<open>
  Modelled from the spec: \<^verbatim>\<open>LocalConnector.connect\<close> (connectors/local.py is not among the
  sources). Section 4.5: a no-op that always succeeds.
\<close>

definition local_connect :: "world \<Rightarrow> world" where
  "local_connect w = log_event EvLocalConnect w"

text \<open>
  Modelled from the spec: \<^verbatim>\<open>extract_control_arguments\<close> (connectors/util.py is not among the
  sources). Section 4.2: given the option mapping and the fixed set of locally owned names,
  it returns two disjoint mappings, the local options and the remainder, and fails with a
  configuration error if a name is recognised by neither layer. The Python function
  returns the first mapping and leaves the second in its argument.
\<close>

definition extract_control_arguments ::
  "env \<Rightarrow> arguments \<Rightarrow> exn + arguments \<times> arguments" where
  "extract_control_arguments env arguments =
     (case filter (\<lambda>kv. fst kv \<notin> set (control_argument_names env)
                       \<and> fst kv \<notin> set (command_argument_names env)) arguments of
        kv # _ \<Rightarrow> Inl (ConfigurationError (fst kv))
      | [] \<Rightarrow>
          Inr (filter (\<lambda>kv. fst kv \<in> set (control_argument_names env)) arguments,
               filter (\<lambda>kv. fst kv \<notin> set (control_argument_names env)) arguments))"

section \<open>The AppJail connector (connectors/appjail.py)\<close>

subsection \<open>connect\<close>

definition connect :: "env \<Rightarrow> connector \<Rightarrow> world \<Rightarrow> (exn + connector) \<times> world" where
  "connect env self w =
     (let w1 = local_connect w;
          jail_name = jail (data (self_host self))
      in case local_shell env (''appjail status '' @ jail_name) w1 of
           (Inl (PyinfraError msg), w2) \<Rightarrow> (Inl (ConnectError msg), w2)
         | (Inl e, w2) \<Rightarrow> (Inl e, w2)
         | (Inr _, w2) \<Rightarrow> (Inr (self\<lparr>self_jail := Some jail_name\<rparr>), w2))"

subsection \<open>run_shell_command\<close>

text \<open>Lines 102 to 113: the bits of the outer command.\<close>

definition jexec_args :: "host_data \<Rightarrow> string \<Rightarrow> arg \<Rightarrow> arg list" where
  "jexec_args hdata jail_name quoted_command =
     (let args = [Raw ''appjail'', Raw ''cmd'', Raw ''jexec'', Raw jail_name];
          args = (if flag_set (noclean hdata) then args @ [Raw ''-l''] else args);
          args = (if name_set (jail_user hdata) then args @ [Raw ''-U'', Raw (the (jail_user hdata))]
                  else if name_set (host_user hdata) then args @ [Raw ''-u'', Raw (the (host_user hdata))]
                  else args)
      in args @ [Raw ''sh'', Raw ''-c'', quoted_command])"

definition run_shell_command ::
  "env \<Rightarrow> connector \<Rightarrow> string_command \<Rightarrow> bool \<Rightarrow> bool \<Rightarrow> arguments \<Rightarrow> world
     \<Rightarrow> (exn + bool \<times> command_output) \<times> world" where
  "run_shell_command env self command print_output print_input arguments w =
     (case extract_control_arguments env arguments of
        Inl e \<Rightarrow> (Inl e, w)
      | Inr (local_arguments, arguments') \<Rightarrow>
          (case self_jail self of
             None \<Rightarrow> (Inl (AttributeError ''jail''), w)
           | Some jail_name \<Rightarrow>
               (let command' = make_unix_command_for_host env (self_host self) command arguments';
                    quoted_command = QuoteString (QCommand command');
                    args = jexec_args (data (self_host self)) jail_name quoted_command
                in local_run_shell_command env (StringCommand args)
                     print_output print_input local_arguments w)))"

subsection \<open>put_file\<close>

text \<open>The body of the \<^verbatim>\<open>try\<close> block, lines 134 to 154.\<close>

definition put_file_try ::
  "env \<Rightarrow> connector \<Rightarrow> file_or_io \<Rightarrow> string \<Rightarrow> bool \<Rightarrow> bool \<Rightarrow> string \<Rightarrow> world
     \<Rightarrow> (exn + bool \<times> command_output) \<times> world" where
  "put_file_try env self filename_or_io remote_filename print_output print_input temp_filename w =
     (case read_file_io env filename_or_io (fs w) of
        Inl e \<Rightarrow> (Inl e, log_event (EvFileIORead filename_or_io) w)
      | Inr d \<Rightarrow>
          (let w1 = log_event (EvWrite temp_filename (encode d))
                      (log_event (EvFileIORead filename_or_io)
                         (w\<lparr>fs := (fs w)(temp_filename \<mapsto> encode d)\<rparr>))
           in case self_jail self of
                None \<Rightarrow> (Inl (AttributeError ''jail''), w1)
              | Some jail_name \<Rightarrow>
                  (case local_shell env (''appjail cmd local '' @ jail_name @ '' pwd'') w1 of
                     (Inl e, w2) \<Rightarrow> (Inl e, w2)
                   | (Inr jail_directory, w2) \<Rightarrow>
                       local_run_shell_command env
                         (StringCommand [Raw ''cp'', Raw temp_filename,
                                         Raw (jail_directory @ ''/'' @ remote_filename)])
                         print_output print_input [] w2)))"

text \<open>
  The \<^verbatim>\<open>finally\<close> clause and what follows it, shared by \<^verbatim>\<open>put_file\<close> and \<^verbatim>\<open>get_file\<close>
  (lines 155 to 170 and 208 to 223), which differ in the message they print. An exception
  raised by \<^verbatim>\<open>os.remove\<close> replaces the one in flight.
\<close>

definition finally_remove ::
  "host \<Rightarrow> string \<Rightarrow> string \<Rightarrow> string \<Rightarrow> bool
     \<Rightarrow> (exn + bool \<times> command_output) \<times> world \<Rightarrow> (exn + bool) \<times> world" where
  "finally_remove h what remote_filename temp_filename print_output rw =
     (case rw of (r, w1) \<Rightarrow>
        (case os_remove temp_filename w1 of
           (Some e, w2) \<Rightarrow> (Inl e, w2)
         | (None, w2) \<Rightarrow>
             (case r of
                Inl e \<Rightarrow> (Inl e, w2)
              | Inr (status, output) \<Rightarrow>
                  if \<not> status then (Inl (IOError (stderr output)), w2)
                  else if print_output
                    then (Inr status,
                          log_event (EvEcho (print_prefix h @ what @ remote_filename)) w2)
                    else (Inr status, w2))))"

definition put_file ::
  "env \<Rightarrow> connector \<Rightarrow> file_or_io \<Rightarrow> string \<Rightarrow> bool \<Rightarrow> bool \<Rightarrow> world \<Rightarrow> (exn + bool) \<times> world" where
  "put_file env self filename_or_io remote_filename print_output print_input w =
     (case mkstemp env w of
        (Inl e, w0) \<Rightarrow> (Inl e, w0)
      | (Inr temp_filename, w0) \<Rightarrow>
          finally_remove (self_host self) ''file uploaded to jail: '' remote_filename
            temp_filename print_output
            (put_file_try env self filename_or_io remote_filename print_output print_input
               temp_filename w0))"

subsection \<open>get_file\<close>

text \<open>
  \<^verbatim>\<open>open(temp_filename, encoding="utf-8").read()\<close>: the bytes must be well-formed UTF-8
  (no overlong form, no surrogate, nothing above U+10FFFF), and text mode turns
  \<^verbatim>\<open>\r\n\<close> and \<^verbatim>\<open>\r\<close> into \<^verbatim>\<open>\n\<close>.
\<close>

definition byte_in :: "nat \<Rightarrow> nat \<Rightarrow> char \<Rightarrow> bool" where
  "byte_in lo hi c = (lo \<le> of_char c \<and> (of_char c :: nat) \<le> hi)"

fun valid_utf8 :: "string \<Rightarrow> bool" where
  "valid_utf8 [] = True"
| "valid_utf8 (a # cs) =
     (if byte_in 0x00 0x7F a then valid_utf8 cs
      else (case cs of
        [] \<Rightarrow> False
      | b # cs1 \<Rightarrow>
         (if byte_in 0xC2 0xDF a then byte_in 0x80 0xBF b \<and> valid_utf8 cs1
          else (case cs1 of
            [] \<Rightarrow> False
          | c # cs2 \<Rightarrow>
             (if byte_in 0xE0 0xE0 a then byte_in 0xA0 0xBF b \<and> byte_in 0x80 0xBF c \<and> valid_utf8 cs2
              else if byte_in 0xE1 0xEC a then byte_in 0x80 0xBF b \<and> byte_in 0x80 0xBF c \<and> valid_utf8 cs2
              else if byte_in 0xED 0xED a then byte_in 0x80 0x9F b \<and> byte_in 0x80 0xBF c \<and> valid_utf8 cs2
              else if byte_in 0xEE 0xEF a then byte_in 0x80 0xBF b \<and> byte_in 0x80 0xBF c \<and> valid_utf8 cs2
              else (case cs2 of
                [] \<Rightarrow> False
              | d # cs3 \<Rightarrow>
                 (if byte_in 0xF0 0xF0 a
                    then byte_in 0x90 0xBF b \<and> byte_in 0x80 0xBF c \<and> byte_in 0x80 0xBF d \<and> valid_utf8 cs3
                  else if byte_in 0xF1 0xF3 a
                    then byte_in 0x80 0xBF b \<and> byte_in 0x80 0xBF c \<and> byte_in 0x80 0xBF d \<and> valid_utf8 cs3
                  else if byte_in 0xF4 0xF4 a
                    then byte_in 0x80 0x8F b \<and> byte_in 0x80 0xBF c \<and> byte_in 0x80 0xBF d \<and> valid_utf8 cs3
                  else False)))))))"

fun universal_newlines :: "string \<Rightarrow> string" where
  "universal_newlines [] = []"
| "universal_newlines (c # cs) =
     (if c = CHR 0x0D then
        (case cs of
           [] \<Rightarrow> [CHR 0x0A]
         | d # ds \<Rightarrow> if d = CHR 0x0A then CHR 0x0A # universal_newlines ds
                     else CHR 0x0A # universal_newlines cs)
      else c # universal_newlines cs)"

definition read_text :: "string \<Rightarrow> exn + file_data" where
  "read_text b = (if valid_utf8 b then Inr (Str (universal_newlines b)) else Inl UnicodeDecodeError)"

text \<open>
  The two nested \<^verbatim>\<open>with\<close> blocks, lines 197 to 207: the temp file is opened, then the
  sink, then the temp file is read through its open handle (so it is read as the opening
  of the sink left it), decoded, encoded again and written to the sink.
\<close>

definition write_back :: "env \<Rightarrow> string \<Rightarrow> file_or_io \<Rightarrow> world \<Rightarrow> exn option \<times> world" where
  "write_back env temp_filename filename_or_io w =
     (case fs w temp_filename of
        None \<Rightarrow> (Some (FileNotFoundError temp_filename), w)
      | Some b0 \<Rightarrow>
          (case open_file_io env filename_or_io (fs w) of
             (Some e, fs1) \<Rightarrow> (Some e, log_event (EvFileIOOpen filename_or_io) (w\<lparr>fs := fs1\<rparr>))
           | (None, fs1) \<Rightarrow>
               (let w1 = log_event (EvRead temp_filename)
                           (log_event (EvFileIOOpen filename_or_io) (w\<lparr>fs := fs1\<rparr>));
                    b = (case fs1 temp_filename of None \<Rightarrow> b0 | Some b1 \<Rightarrow> b1)
                in case read_text b of
                     Inl e \<Rightarrow> (Some e, w1)
                   | Inr d \<Rightarrow>
                       (case write_file_io env filename_or_io (encode d) (fs w1) of
                          (r, fs2) \<Rightarrow>
                            (r, log_event (EvFileIOWrite filename_or_io (encode d))
                                  (w1\<lparr>fs := fs2\<rparr>))))))"

text \<open>The body of the \<^verbatim>\<open>try\<close> block, lines 184 to 207.\<close>

definition get_file_try ::
  "env \<Rightarrow> connector \<Rightarrow> string \<Rightarrow> file_or_io \<Rightarrow> bool \<Rightarrow> bool \<Rightarrow> string \<Rightarrow> world
     \<Rightarrow> (exn + bool \<times> command_output) \<times> world" where
  "get_file_try env self remote_filename filename_or_io print_output print_input temp_filename w =
     (case self_jail self of
        None \<Rightarrow> (Inl (AttributeError ''jail''), w)
      | Some jail_name \<Rightarrow>
          (case local_shell env (''appjail cmd local '' @ jail_name @ '' pwd'') w of
             (Inl e, w1) \<Rightarrow> (Inl e, w1)
           | (Inr jail_directory, w1) \<Rightarrow>
               (case local_run_shell_command env
                       (StringCommand [Raw ''cp'', Raw (jail_directory @ ''/'' @ remote_filename),
                                       Raw temp_filename])
                       print_output print_input [] w1 of
                  (Inl e, w2) \<Rightarrow> (Inl e, w2)
                | (Inr (status, output), w2) \<Rightarrow>
                    (case write_back env temp_filename filename_or_io w2 of
                       (Some e, w3) \<Rightarrow> (Inl e, w3)
                     | (None, w3) \<Rightarrow> (Inr (status, output), w3)))))"

definition get_file ::
  "env \<Rightarrow> connector \<Rightarrow> string \<Rightarrow> file_or_io \<Rightarrow> bool \<Rightarrow> bool \<Rightarrow> world \<Rightarrow> (exn + bool) \<times> world" where
  "get_file env self remote_filename filename_or_io print_output print_input w =
     (case mkstemp env w of
        (Inl e, w0) \<Rightarrow> (Inl e, w0)
      | (Inr temp_filename, w0) \<Rightarrow>
          finally_remove (self_host self) ''file downloaded from jail: '' remote_filename
            temp_filename print_output
            (get_file_try env self remote_filename filename_or_io print_output print_input
               temp_filename w0))"

section \<open>The base connector\<close>

text \<open>
  Modelled from the spec: \<^verbatim>\<open>LocalConnector.run_shell_command\<close> (connectors/local.py is not
  among the sources). Sections 4.4 and 4.5: it spawns a child process with the command and
  returns the captured output with \<open>success\<close>, which is true exactly when the exit code is
  in the success set of the options, \<open>{0}\<close> when the options name none. The option is called
  \<^verbatim>\<open>_success_exit_codes\<close> (tests, line 99). The child process is a parameter: it returns
  its output and may change the file system. Time-outs are outside the model.
\<close>

type_synonym popen = "string_command \<Rightarrow> arguments \<Rightarrow> filesystem \<Rightarrow> command_output \<times> filesystem"

definition success_exit_codes :: "arguments \<Rightarrow> int list" where
  "success_exit_codes kw =
     (case map_of kw ''_success_exit_codes'' of Some (VInts codes) \<Rightarrow> codes | _ \<Rightarrow> [0])"

definition local_connector_run_shell_command ::
  "popen \<Rightarrow> string_command \<Rightarrow> bool \<Rightarrow> bool \<Rightarrow> arguments \<Rightarrow> filesystem
     \<Rightarrow> (exn + bool \<times> command_output) \<times> filesystem" where
  "local_connector_run_shell_command child c print_output print_input kw fs0 =
     (case child c kw fs0 of
        (out, fs1) \<Rightarrow> (Inr (exit_code out \<in> set (success_exit_codes kw), out), fs1))"

section \<open>FreeBSD operations\<close>

text \<open>
  \<^verbatim>\<open>host.get_fact(Fact, ...)\<close> for the three facts used (facts/freebsd.py is not among the
  sources): parameters, tested for truth by the operations.
\<close>

record facts =
  ServiceScript :: "string \<Rightarrow> string option \<Rightarrow> pyval"
  ServiceStatus :: "string \<Rightarrow> string option \<Rightarrow> pyval"
  Sysrc :: "string \<Rightarrow> string option \<Rightarrow> pyval"

text \<open>An operation calls \<^verbatim>\<open>host.noop(message)\<close> and returns, or yields one command.\<close>

datatype op_result = Noop string | Yield string_command

definition apostrophe :: string where
  "apostrophe = [CHR 0x27]"

subsection \<open>operations/freebsd/service.py\<close>

datatype ServiceStates = SRV_STARTED | SRV_STOPPED | SRV_RESTARTED | SRV_RELOADED | SRV_CUSTOM

text \<open>The \<^verbatim>\<open>command\<close> parameter: \<^verbatim>\<open>None\<close>, a string or a list of strings.\<close>

datatype command_arg = CommandNone | CommandStr string | CommandList "string list"

text \<open>
  Lines 109 to 112: whatever is not a \<^verbatim>\<open>str\<close> is wrapped in a one-element list, and the
  result is iterated; iterating a \<^verbatim>\<open>str\<close> gives its characters.
\<close>

fun custom_args :: "command_arg \<Rightarrow> arg list" where
  "custom_args (CommandStr s) = map (\<lambda>c. QuoteString (QStr [c])) s"
| "custom_args (CommandList l) = [QuoteString (QList l)]"
| "custom_args CommandNone = [QuoteString QNone]"

text \<open>Lines 75 to 85: the options before the service name.\<close>

definition service_args :: "string option \<Rightarrow> string list option \<Rightarrow> bool \<Rightarrow> arg list" where
  "service_args jail_name environment verbose =
     (let args = [Raw ''service''];
          args = (if verbose then args @ [Raw ''-v''] else args);
          args = (case jail_name of None \<Rightarrow> args
                  | Some j \<Rightarrow> args @ [Raw ''-j'', QuoteString (QStr j)])
      in case environment of None \<Rightarrow> args
         | Some vars \<Rightarrow>
             foldl (\<lambda>args env_var. args @ [Raw ''-E'', QuoteString (QStr env_var)]) args vars)"

text \<open>
  \<open>state\<close> is \<open>Some\<close> member of \<^verbatim>\<open>ServiceStates\<close>, or \<open>None\<close> for any other value, which
  reaches the final \<^verbatim>\<open>else\<close>.
\<close>

definition service ::
  "facts \<Rightarrow> string \<Rightarrow> string option \<Rightarrow> ServiceStates option \<Rightarrow> command_arg
     \<Rightarrow> string list option \<Rightarrow> bool \<Rightarrow> exn + op_result" where
  "service f srvname jail_name state command environment verbose =
     (if \<not> truthy (ServiceScript f srvname jail_name)
      then Inr (Noop (''Cannot find rc(8) script '' @ apostrophe @ srvname @ apostrophe))
      else
        (let args = service_args jail_name environment verbose in
         case state of
           Some SRV_STARTED \<Rightarrow>
             if truthy (ServiceStatus f srvname jail_name)
             then Inr (Noop (''Service '' @ apostrophe @ srvname @ apostrophe @ '' already started''))
             else Inr (Yield (StringCommand (args @ [QuoteString (QStr srvname), Raw ''start''])))
         | Some SRV_STOPPED \<Rightarrow>
             if \<not> truthy (ServiceStatus f srvname jail_name)
             then Inr (Noop (''Service '' @ apostrophe @ srvname @ apostrophe @ '' already stopped''))
             else Inr (Yield (StringCommand (args @ [QuoteString (QStr srvname), Raw ''stop''])))
         | Some SRV_RESTARTED \<Rightarrow>
             Inr (Yield (StringCommand (args @ [QuoteString (QStr srvname), Raw ''restart''])))
         | Some SRV_RELOADED \<Rightarrow>
             Inr (Yield (StringCommand (args @ [QuoteString (QStr srvname), Raw ''reload''])))
         | Some SRV_CUSTOM \<Rightarrow>
             Inr (Yield (StringCommand (args @ [QuoteString (QStr srvname)] @ custom_args command)))
         | None \<Rightarrow> Inl (OperationValueError ''Invalid service command!'')))"

subsection \<open>operations/freebsd/sysrc.py\<close>

datatype SysrcCommands = SYSRC_ADD | SYSRC_SUB | SYSRC_SET | SYSRC_DEL

text \<open>Lines 89 to 94.\<close>

definition sysrc_command :: "string \<Rightarrow> string \<Rightarrow> string \<Rightarrow> string option \<Rightarrow> string_command" where
  "sysrc_command parameter sign val jail_name =
     (let args = [Raw ''sysrc'', Raw ''-i''];
          args = (case jail_name of None \<Rightarrow> args
                  | Some j \<Rightarrow> args @ [Raw ''-j'', QuoteString (QStr j)])
      in StringCommand (args @ [Raw ''--'', QuoteString (QStr (parameter @ sign @ val))]))"

definition sysrc ::
  "facts \<Rightarrow> string \<Rightarrow> string \<Rightarrow> string option \<Rightarrow> SysrcCommands option \<Rightarrow> bool
     \<Rightarrow> exn + op_result" where
  "sysrc f parameter val jail_name command overwrite =
     (case command of
        Some SYSRC_DEL \<Rightarrow>
          if \<not> truthy (Sysrc f parameter jail_name)
          then Inr (Noop (''Cannot find sysrc(8) parameter '' @ apostrophe @ parameter @ apostrophe))
          else Inr (Yield (sysrc_command parameter ''='' val jail_name))
      | Some SYSRC_SET \<Rightarrow>
          if \<not> overwrite \<and> truthy (Sysrc f parameter jail_name)
          then Inr (Noop (''sysrc(8) parameter '' @ apostrophe @ parameter @ apostrophe
                          @ '' already set''))
          else Inr (Yield (sysrc_command parameter ''='' val jail_name))
      | Some SYSRC_ADD \<Rightarrow> Inr (Yield (sysrc_command parameter ''+='' val jail_name))
      | Some SYSRC_SUB \<Rightarrow> Inr (Yield (sysrc_command parameter ''-='' val jail_name))
      | None \<Rightarrow> Inl (OperationValueError ''Invalid sysrc command!''))"

section \<open>The environment of the test-suite\<close>

text \<open>
  The doubles of tests/test_connectors/test_appjail.py, used to run the connector on
  concrete inputs: \<open>fake_jail_shell\<close> (lines 16 to 23), a temp file called
  \<^verbatim>\<open>__tempfile__\<close> (line 27), a child process that exits with a given code (the mocked
  \<^verbatim>\<open>Popen\<close>) or one that carries out \<^verbatim>\<open>cp\<close> on the file system, and sources and sinks that
  are paths of that file system (the empty path cannot be opened) or closed file objects
  (reading and writing raise). \<open>refusing_inner\<close> is an inner connector that raises on every
  command.
\<close>

definition fake_jail_shell :: "string \<Rightarrow> string + string" where
  "fake_jail_shell c =
     (if c = ''appjail status not-a-jail'' then Inr ''True''
      else if c = ''appjail cmd local not-a-jail pwd'' then Inr ''/not-a-jail''
      else Inl (''Invalid command: '' @ c))"

definition fake_popen :: "int \<Rightarrow> popen" where
  "fake_popen returncode c kw fs0 = (\<lparr>stdout = [], stderr = [], exit_code = returncode\<rparr>, fs0)"

definition cp_popen :: popen where
  "cp_popen c kw fs0 =
     (case c of
        StringCommand [Raw tool, Raw src, Raw dst] \<Rightarrow>
          (case fs0 src of
             Some b \<Rightarrow> (\<lparr>stdout = [], stderr = [], exit_code = 0\<rparr>, fs0(dst \<mapsto> b))
           | None \<Rightarrow> (\<lparr>stdout = [], stderr = [''cp: '' @ src @ '': No such file or directory''],
                        exit_code = 1\<rparr>, fs0))
      | _ \<Rightarrow> (\<lparr>stdout = [], stderr = [], exit_code = 127\<rparr>, fs0))"

definition path_read :: "file_or_io \<Rightarrow> filesystem \<Rightarrow> exn + file_data" where
  "path_read x fs0 =
     (case x of
        Filename p \<Rightarrow> (case fs0 p of None \<Rightarrow> Inl (FileNotFoundError p) | Some b \<Rightarrow> Inr (Bytes b))
      | FileObject n \<Rightarrow> Inl (OtherError ''I/O operation on closed file''))"

definition path_open :: "file_or_io \<Rightarrow> filesystem \<Rightarrow> exn option \<times> filesystem" where
  "path_open x fs0 =
     (case x of
        Filename p \<Rightarrow>
          (if p = [] then (Some (FileNotFoundError p), fs0) else (None, fs0(p \<mapsto> [])))
      | FileObject n \<Rightarrow> (None, fs0))"

definition path_write :: "file_or_io \<Rightarrow> string \<Rightarrow> filesystem \<Rightarrow> exn option \<times> filesystem" where
  "path_write x b fs0 =
     (case x of
        Filename p \<Rightarrow> (None, fs0(p \<mapsto> b))
      | FileObject n \<Rightarrow> (Some (OtherError ''I/O operation on closed file''), fs0))"

definition sh_wrap :: "host \<Rightarrow> string_command \<Rightarrow> arguments \<Rightarrow> string_command" where
  "sh_wrap h c kw =
     (if (case map_of kw ''_sudo'' of None \<Rightarrow> False | Some v \<Rightarrow> truthy v)
      then StringCommand [Raw ''sudo'', Raw ''-H'', Raw ''-n'', Raw ''sh'', Raw ''-c'',
                          QuoteString (QCommand c)]
      else StringCommand [Raw ''sh'', Raw ''-c'', QuoteString (QCommand c)])"

definition test_env :: "popen \<Rightarrow> env" where
  "test_env child =
     \<lparr>control_argument_names = [''_success_exit_codes'', ''_timeout'', ''_get_pty'', ''_stdin''],
      command_argument_names = [''_sudo'', ''_sudo_user'', ''_su_user'', ''_chdir'', ''_env'',
                                ''_shell_executable''],
      make_unix_command_for_host = sh_wrap,
      shell = fake_jail_shell,
      inner_run_shell_command = local_connector_run_shell_command child,
      tempname = (\<lambda>fs0. ''__tempfile__''),
      read_file_io = path_read,
      open_file_io = path_open,
      write_file_io = path_write\<rparr>"

definition not_a_jail :: host where
  "not_a_jail =
     \<lparr>data = \<lparr>jail = ''not-a-jail'', noclean = None, jail_user = None, host_user = None\<rparr>,
      print_prefix = ''[@appjail/not-a-jail] ''\<rparr>"

definition unconnected :: connector where
  "unconnected = \<lparr>self_host = not_a_jail, self_jail = None\<rparr>"

definition connected :: connector where
  "connected = \<lparr>self_host = not_a_jail, self_jail = Some ''not-a-jail''\<rparr>"

definition empty_world :: world where
  "empty_world = \<lparr>fs = Map.empty, trace = []\<rparr>"

definition kept_jail :: connector where
  "kept_jail =
     \<lparr>self_host =
        \<lparr>data = \<lparr>jail = ''not-a-jail'', noclean = Some True, jail_user = Some [],
                  host_user = Some ''www''\<rparr>,
         print_prefix = ''[@appjail/not-a-jail] ''\<rparr>,
      self_jail = Some ''not-a-jail''\<rparr>"

definition a_broken_jail :: connector where
  "a_broken_jail =
     \<lparr>self_host =
        \<lparr>data = \<lparr>jail = ''a-broken-jail'', noclean = None, jail_user = None, host_user = None\<rparr>,
         print_prefix = ''[@appjail/a-broken-jail] ''\<rparr>,
      self_jail = None\<rparr>"

definition test_world :: world where
  "test_world = \<lparr>fs = [''not-a-file'' \<mapsto> ''test!''], trace = []\<rparr>"

definition motd_world :: world where
  "motd_world = \<lparr>fs = [''/not-a-jail/motd'' \<mapsto> ''welcome''], trace = []\<rparr>"

definition refusing_inner ::
  "string_command \<Rightarrow> bool \<Rightarrow> bool \<Rightarrow> arguments \<Rightarrow> filesystem
     \<Rightarrow> (exn + bool \<times> command_output) \<times> filesystem" where
  "refusing_inner c print_output print_input kw fs0 =
     (Inl (OtherError ''the inner connector runs no command''), fs0)"

definition precious_world :: world where
  "precious_world = \<lparr>fs = [''out'' \<mapsto> ''precious''], trace = []\<rparr>"

definition running :: facts where
  "running =
     \<lparr>ServiceScript = (\<lambda>srvname j. VBool True),
      ServiceStatus = (\<lambda>srvname j. VBool True),
      Sysrc = (\<lambda>parameter j. VStr ''YES'')\<rparr>"

section \<open>Auxiliary facts\<close>

lemma map_of_filter_key:
  "P k \<Longrightarrow> map_of (filter (\<lambda>kv. P (fst kv)) xs) k = map_of xs k"
  by (induction xs) auto

lemma extract_parts:
  assumes "extract_control_arguments env arguments = Inr (la, rest)"
  shows "la = filter (\<lambda>kv. fst kv \<in> set (control_argument_names env)) arguments"
    and "rest = filter (\<lambda>kv. fst kv \<notin> set (control_argument_names env)) arguments"
  using assms by (auto simp: extract_control_arguments_def split: list.splits)

lemma jexec_args_shape:
  "jexec_args hdata j q =
     [Raw ''appjail'', Raw ''cmd'', Raw ''jexec'', Raw j]
     @ (if flag_set (noclean hdata) then [Raw ''-l''] else [])
     @ (if name_set (jail_user hdata) then [Raw ''-U'', Raw (the (jail_user hdata))]
        else if name_set (host_user hdata) then [Raw ''-u'', Raw (the (host_user hdata))]
        else [])
     @ [Raw ''sh'', Raw ''-c'', q]"
  by (simp add: jexec_args_def Let_def)

lemma trace_local_run_shell_command:
  "trace (snd (local_run_shell_command env c po pi kw w)) = trace w @ [EvRun c po pi kw]"
  by (simp add: local_run_shell_command_def log_event_def split: prod.splits)

lemma run_shell_command_forward:
  assumes "extract_control_arguments env arguments = Inr (local_arguments, rest)"
    and "self_jail self = Some j"
  shows "run_shell_command env self command print_output print_input arguments w =
           local_run_shell_command env
             (StringCommand (jexec_args (data (self_host self)) j
                (QuoteString (QCommand (make_unix_command_for_host env (self_host self) command rest)))))
             print_output print_input local_arguments w"
  using assms by (simp add: run_shell_command_def)

lemma user_flag_cases:
  "(if name_set u then [Raw f, Raw (the u)] else rest) =
     (case u of Some (c # cs) \<Rightarrow> [Raw f, Raw (c # cs)] | _ \<Rightarrow> rest)"
  by (simp add: name_set_def split: option.splits list.splits)

lemma mkstemp_ok:
  "tempname env (fs w) = t \<Longrightarrow> fs w t = None \<Longrightarrow>
   mkstemp env w = (Inr t, w\<lparr>fs := (fs w)(t \<mapsto> []), trace := trace w @ [EvMkstemp t]\<rparr>)"
  by (simp add: mkstemp_def log_event_def Let_def)


lemma finally_remove_fs:
  "fs (snd (finally_remove h what remote t po rw)) t = None"
  by (cases rw)
     (auto simp: finally_remove_def os_remove_def log_event_def
           split: prod.splits option.splits sum.splits if_splits)

lemma finally_remove_present:
  "fs w1 t \<noteq> None \<Longrightarrow>
   finally_remove h what remote t po (Inr (status, out), w1) =
     (if \<not> status then (Inl (IOError (stderr out)),
                          w1\<lparr>fs := (fs w1)(t := None), trace := trace w1 @ [EvRemove t]\<rparr>)
      else (Inr True,
            w1\<lparr>fs := (fs w1)(t := None),
                trace := trace w1 @ [EvRemove t]
                         @ (if po then [EvEcho (print_prefix h @ what @ remote)] else [])\<rparr>))"
  by (auto simp: finally_remove_def os_remove_def log_event_def)

lemma put_file_try_to_copy:
  assumes "read_file_io env source (fs w0) = Inr d"
    and "self_jail self = Some j"
    and "shell env (''appjail cmd local '' @ j @ '' pwd'') = Inr root"
  shows "put_file_try env self source remote po pi t w0 =
           local_run_shell_command env
             (StringCommand [Raw ''cp'', Raw t, Raw (root @ ''/'' @ remote)]) po pi []
             (w0\<lparr>fs := (fs w0)(t \<mapsto> encode d),
                 trace := trace w0 @ [EvFileIORead source, EvWrite t (encode d),
                                      EvShell (''appjail cmd local '' @ j @ '' pwd'')]\<rparr>)"
  using assms by (simp add: put_file_try_def local_shell_def log_event_def Let_def)



lemma finally_remove_raised:
  "fs w1 t \<noteq> None \<Longrightarrow>
   finally_remove h what remote t po (Inl e, w1) =
     (Inl e, w1\<lparr>fs := (fs w1)(t := None), trace := trace w1 @ [EvRemove t]\<rparr>)"
  by (auto simp: finally_remove_def os_remove_def log_event_def)


lemma write_back_open_raises:
  assumes "fs w t \<noteq> None"
    and "open_file_io env sink (fs w) = (Some e, fs2)"
  shows "write_back env t sink w =
           (Some e, w\<lparr>fs := fs2, trace := trace w @ [EvFileIOOpen sink]\<rparr>)"
  using assms by (auto simp: write_back_def log_event_def)

lemma write_back_write:
  assumes "fs w t \<noteq> None"
    and "open_file_io env sink (fs w) = (None, fs2)"
    and "fs2 t = Some b"
    and "read_text b = Inr d"
    and "write_file_io env sink (encode d) fs2 = (r, fs3)"
  shows "write_back env t sink w =
           (r, w\<lparr>fs := fs3,
                 trace := trace w @ [EvFileIOOpen sink, EvRead t, EvFileIOWrite sink (encode d)]\<rparr>)"
  using assms by (auto simp: write_back_def log_event_def Let_def)

lemma get_file_try_to_write_back:
  assumes "self_jail self = Some j"
    and "shell env (''appjail cmd local '' @ j @ '' pwd'') = Inr root"
    and "inner_run_shell_command env
           (StringCommand [Raw ''cp'', Raw (root @ ''/'' @ remote), Raw t]) po pi [] (fs w0)
         = (Inr (status, out), fs1)"
  shows "get_file_try env self remote sink po pi t w0 =
           (case write_back env t sink
                   (w0\<lparr>fs := fs1,
                       trace := trace w0 @
                         [EvShell (''appjail cmd local '' @ j @ '' pwd''),
                          EvRun (StringCommand [Raw ''cp'', Raw (root @ ''/'' @ remote), Raw t])
                            po pi []]\<rparr>) of
              (Some e, w3) \<Rightarrow> (Inl e, w3)
            | (None, w3) \<Rightarrow> (Inr (status, out), w3))"
  using assms
  by (simp add: get_file_try_def local_shell_def local_run_shell_command_def log_event_def)

section \<open>The claims\<close>

text \<open>
  C1. Whenever \<^verbatim>\<open>run_shell_command\<close> runs a command (the options are accepted and the
  connector is connected to jail \<open>j\<close>), the one command it hands to the inner connector is
  \<^verbatim>\<open>appjail cmd jexec j [-l] [-U jail_user | -u host_user] sh -c <quoted inner command>\<close>:
  \<^verbatim>\<open>-l\<close> is there exactly when \<^verbatim>\<open>noclean\<close> is set, and the user flag is \<^verbatim>\<open>-U\<close> with the
  jail user when there is one, otherwise \<^verbatim>\<open>-u\<close> with the host user when there is one,
  otherwise absent.
\<close>

theorem C1_outer_command_shape:
  assumes "extract_control_arguments env arguments = Inr (local_arguments, rest)"
    and "self_jail self = Some j"
  shows "trace (snd (run_shell_command env self command print_output print_input arguments w)) =
           trace w @
           [EvRun (StringCommand
              ([Raw ''appjail'', Raw ''cmd'', Raw ''jexec'', Raw j]
               @ (if noclean (data (self_host self)) = Some True then [Raw ''-l''] else [])
               @ (case jail_user (data (self_host self)) of
                    Some (c # cs) \<Rightarrow> [Raw ''-U'', Raw (c # cs)]
                  | _ \<Rightarrow>
                    (case host_user (data (self_host self)) of
                       Some (c # cs) \<Rightarrow> [Raw ''-u'', Raw (c # cs)]
                     | _ \<Rightarrow> []))
               @ [Raw ''sh'', Raw ''-c'',
                  QuoteString (QCommand (make_unix_command_for_host env (self_host self) command rest))]))
              print_output print_input local_arguments]
         \<and> ((jexec_args (data (self_host self)) j q ! 4 = Raw ''-l'')
              = (noclean (data (self_host self)) = Some True))"
proof
  show "trace (snd (run_shell_command env self command print_output print_input arguments w)) =
           trace w @
           [EvRun (StringCommand
              ([Raw ''appjail'', Raw ''cmd'', Raw ''jexec'', Raw j]
               @ (if noclean (data (self_host self)) = Some True then [Raw ''-l''] else [])
               @ (case jail_user (data (self_host self)) of
                    Some (c # cs) \<Rightarrow> [Raw ''-U'', Raw (c # cs)]
                  | _ \<Rightarrow>
                    (case host_user (data (self_host self)) of
                       Some (c # cs) \<Rightarrow> [Raw ''-u'', Raw (c # cs)]
                     | _ \<Rightarrow> []))
               @ [Raw ''sh'', Raw ''-c'',
                  QuoteString (QCommand (make_unix_command_for_host env (self_host self) command rest))]))
              print_output print_input local_arguments]"
    unfolding run_shell_command_forward [OF assms] trace_local_run_shell_command
      jexec_args_shape user_flag_cases flag_set_def
    by simp
next
  show "(jexec_args (data (self_host self)) j q ! 4 = Raw ''-l'')
          = (noclean (data (self_host self)) = Some True)"
    by (simp add: jexec_args_shape flag_set_def)
qed

theorem C1_outer_command_shape_witness:
  "trace (snd (run_shell_command (test_env (fake_popen 0)) kept_jail
       (StringCommand [Raw ''echo'', Raw ''hoi'']) True False
       [(''_stdin'', VStr ''hello''), (''_get_pty'', VBool True)] empty_world)) =
     [EvRun (StringCommand
        [Raw ''appjail'', Raw ''cmd'', Raw ''jexec'', Raw ''not-a-jail'', Raw ''-l'',
         Raw ''-u'', Raw ''www'', Raw ''sh'', Raw ''-c'',
         QuoteString (QCommand (StringCommand
           [Raw ''sh'', Raw ''-c'', QuoteString (QCommand (StringCommand [Raw ''echo'', Raw ''hoi'']))]))])
        True False [(''_stdin'', VStr ''hello''), (''_get_pty'', VBool True)]]"
  using C1_outer_command_shape [of "test_env (fake_popen 0)"
      "[(''_stdin'', VStr ''hello''), (''_get_pty'', VBool True)]"
      "[(''_stdin'', VStr ''hello''), (''_get_pty'', VBool True)]" "[]"
      kept_jail "''not-a-jail''" "StringCommand [Raw ''echo'', Raw ''hoi'']" True False empty_world]
  by (simp add: extract_control_arguments_def test_env_def kept_jail_def
        empty_world_def sh_wrap_def)

text \<open>
  C2. When \<^verbatim>\<open>mkstemp\<close> has created the staging file \<open>t\<close>, then after \<^verbatim>\<open>put_file\<close> and after
  \<^verbatim>\<open>get_file\<close> there is no file \<open>t\<close>, whatever the result of the call: a value, the transfer
  error, or any exception of the steps in between.
\<close>

theorem C2_temp_file_removed:
  assumes "mkstemp env w = (Inr t, w0)"
  shows "fs (snd (put_file env self source remote_filename print_output print_input w)) t = None
       \<and> fs (snd (get_file env self remote_filename sink print_output print_input w)) t = None"
  using assms by (simp add: put_file_def get_file_def finally_remove_fs)

theorem C2_temp_file_removed_witness:
  "fs (snd (put_file (test_env cp_popen) connected (Filename ''not-a-file'') ''not-another-file''
              True False empty_world)) ''__tempfile__'' = None
   \<and> fs (snd (get_file (test_env cp_popen) connected ''not-another-file'' (Filename ''not-another-file'')
              True False empty_world)) ''__tempfile__'' = None"
  using C2_temp_file_removed [where env = "test_env cp_popen" and w = empty_world
      and t = "''__tempfile__''"
      and ?w0.0 = "\<lparr>fs = [''__tempfile__'' \<mapsto> []], trace = [EvMkstemp ''__tempfile__'']\<rparr>"
      and self = connected and source = "Filename ''not-a-file''"
      and remote_filename = "''not-another-file''" and print_output = True
      and print_input = False and sink = "Filename ''not-another-file''"]
  by (simp add: mkstemp_def test_env_def empty_world_def log_event_def Let_def)

text \<open>
  C3. Let the inner connector be the base connector over any child process, and let the
  options be accepted, \<^verbatim>\<open>_success_exit_codes\<close> being one of the control arguments. Then
  \<^verbatim>\<open>run_shell_command\<close> raises nothing and returns, with the output of the child, the truth
  of: the exit code is one of the success codes given in the options, or is 0 when the
  options give none.
\<close>

theorem C3_success_is_exit_code_membership:
  assumes "inner_run_shell_command env = local_connector_run_shell_command child"
    and "self_jail self = Some j"
    and "extract_control_arguments env arguments = Inr (local_arguments, rest)"
    and "''_success_exit_codes'' \<in> set (control_argument_names env)"
    and "child (StringCommand (jexec_args (data (self_host self)) j
            (QuoteString (QCommand (make_unix_command_for_host env (self_host self) command rest)))))
          local_arguments (fs w) = (out, fs1)"
  shows "fst (run_shell_command env self command print_output print_input arguments w) =
           Inr (exit_code out \<in> set (case map_of arguments ''_success_exit_codes'' of
                                          Some (VInts codes) \<Rightarrow> codes | _ \<Rightarrow> [0]), out)"
proof -
  have "local_arguments = filter (\<lambda>kv. fst kv \<in> set (control_argument_names env)) arguments"
    by (rule extract_parts [OF assms(3)])
  then have "map_of local_arguments ''_success_exit_codes'' = map_of arguments ''_success_exit_codes''"
    using assms(4) map_of_filter_key [of "\<lambda>k. k \<in> set (control_argument_names env)"] by simp
  then have "success_exit_codes local_arguments = success_exit_codes arguments"
    by (simp add: success_exit_codes_def)
  then show ?thesis
    using assms(1,5)
    by (simp add: run_shell_command_forward [OF assms(3,2)] local_run_shell_command_def
          local_connector_run_shell_command_def success_exit_codes_def)
qed

theorem C3_success_is_exit_code_membership_witness:
  "fst (run_shell_command (test_env (fake_popen 1)) connected (StringCommand [Raw ''echo'', Raw ''hoi''])
          False False [(''_success_exit_codes'', VInts [1])] empty_world) =
     Inr (True, \<lparr>stdout = [], stderr = [], exit_code = 1\<rparr>)
   \<and> fst (run_shell_command (test_env (fake_popen 1)) connected (StringCommand [Raw ''echo'', Raw ''hoi''])
          False False [] empty_world) =
     Inr (False, \<lparr>stdout = [], stderr = [], exit_code = 1\<rparr>)"
  using C3_success_is_exit_code_membership [of "test_env (fake_popen 1)" "fake_popen 1" connected
      "''not-a-jail''" "[(''_success_exit_codes'', VInts [1])]" "[(''_success_exit_codes'', VInts [1])]"
      "[]" "StringCommand [Raw ''echo'', Raw ''hoi'']" empty_world
      "\<lparr>stdout = [], stderr = [], exit_code = 1\<rparr>" "fs empty_world" False False]
    C3_success_is_exit_code_membership [of "test_env (fake_popen 1)" "fake_popen 1" connected
      "''not-a-jail''" "[]" "[]"
      "[]" "StringCommand [Raw ''echo'', Raw ''hoi'']" empty_world
      "\<lparr>stdout = [], stderr = [], exit_code = 1\<rparr>" "fs empty_world" False False]
  by (simp add: extract_control_arguments_def test_env_def connected_def fake_popen_def)

text \<open>
  C4 (amended). \<^verbatim>\<open>connect\<close> connects the inner connector, then runs \<^verbatim>\<open>appjail status <jail>\<close>
  with the local shell helper \<^verbatim>\<open>pyinfra.local.shell\<close>, not with \<^verbatim>\<open>run_shell_command\<close> of the
  inner connector: replacing the latter changes nothing. When the probe fails with a
  message, \<^verbatim>\<open>ConnectError\<close> is raised with that message and the connector is left as it was;
  when it succeeds, and only then, the connector records the jail.
\<close>

theorem C4_connect:
  "connect env self w =
     (case shell env (''appjail status '' @ jail (data (self_host self))) of
        Inl msg \<Rightarrow>
          (Inl (ConnectError msg),
           w\<lparr>trace := trace w @ [EvLocalConnect,
                                 EvShell (''appjail status '' @ jail (data (self_host self)))]\<rparr>)
      | Inr out \<Rightarrow>
          (Inr (self\<lparr>self_jail := Some (jail (data (self_host self)))\<rparr>),
           w\<lparr>trace := trace w @ [EvLocalConnect,
                                 EvShell (''appjail status '' @ jail (data (self_host self)))]\<rparr>))
   \<and> connect (env\<lparr>inner_run_shell_command := inner\<rparr>) self w = connect env self w"
  by (simp add: connect_def local_connect_def local_shell_def log_event_def Let_def
        split: sum.splits)

theorem C4_connect_witness:
  "connect (test_env (fake_popen 0)) unconnected empty_world =
     (Inr connected,
      \<lparr>fs = Map.empty, trace = [EvLocalConnect, EvShell ''appjail status not-a-jail'']\<rparr>)
   \<and> connect (test_env (fake_popen 0)) a_broken_jail empty_world =
     (Inl (ConnectError ''Invalid command: appjail status a-broken-jail''),
      \<lparr>fs = Map.empty, trace = [EvLocalConnect, EvShell ''appjail status a-broken-jail'']\<rparr>)"
  using C4_connect [of "test_env (fake_popen 0)" unconnected empty_world]
    C4_connect [of "test_env (fake_popen 0)" a_broken_jail empty_world]
  by (simp add: test_env_def unconnected_def connected_def a_broken_jail_def not_a_jail_def
        empty_world_def fake_jail_shell_def)

text \<open>
  C4 as stated fails. With an inner connector whose \<^verbatim>\<open>run_shell_command\<close> raises on every
  command, \<^verbatim>\<open>connect\<close> still validates the jail and records it, and its only effects are
  the inner connect and the local shell command: the probe does not go through the inner
  connector.
\<close>

theorem C4_counterexample:
  "connect ((test_env (fake_popen 0))\<lparr>inner_run_shell_command := refusing_inner\<rparr>)
       unconnected empty_world =
     (Inr connected,
      \<lparr>fs = Map.empty, trace = [EvLocalConnect, EvShell ''appjail status not-a-jail'']\<rparr>)"
  by (simp add: connect_def local_connect_def local_shell_def log_event_def Let_def
        test_env_def unconnected_def connected_def not_a_jail_def empty_world_def
        fake_jail_shell_def)

text \<open>
  C5 (amended). The staging file \<open>t\<close> being created and the probe answering \<open>root\<close>:
  \<^item> when the copy step of \<^verbatim>\<open>put_file\<close> has returned \<open>(status, out)\<close> and left \<open>t\<close> in place,
    the call returns true if \<open>status\<close> is true and raises the transfer error with the
    captured stderr if it is false;
  \<^item> when the copy step of \<^verbatim>\<open>get_file\<close> has returned \<open>(status, out)\<close> and left \<open>t\<close> in place,
    \<open>t\<close> staying in place until it is removed: if the sink is opened and written without
    an exception, \<open>t\<close> having been read back, the call returns true or raises the transfer
    error in the same way; if opening the sink raises, or writing to it raises, that
    exception escapes instead, whatever \<open>status\<close> is.
\<close>

theorem C5_transfer_error:
  assumes "tempname env (fs w) = t" and "fs w t = None"
    and "self_jail self = Some j"
    and "shell env (''appjail cmd local '' @ j @ '' pwd'') = Inr root"
  shows "(read_file_io env source ((fs w)(t \<mapsto> [])) = Inr d0
          \<and> inner_run_shell_command env
               (StringCommand [Raw ''cp'', Raw t, Raw (root @ ''/'' @ remote_filename)])
               print_output print_input [] ((fs w)(t \<mapsto> encode d0))
             = (Inr (status0, out0), fs0)
          \<and> fs0 t \<noteq> None
          \<longrightarrow> fst (put_file env self source remote_filename print_output print_input w) =
                (if status0 then Inr True else Inl (IOError (stderr out0))))
       \<and> (inner_run_shell_command env
               (StringCommand [Raw ''cp'', Raw (root @ ''/'' @ remote_filename), Raw t])
               print_output print_input [] ((fs w)(t \<mapsto> []))
             = (Inr (status, out), fs1)
          \<and> fs1 t \<noteq> None
          \<longrightarrow>
            (open_file_io env sink fs1 = (None, fs2)
             \<and> fs2 t = Some b
             \<and> read_text b = Inr d
             \<and> write_file_io env sink (encode d) fs2 = (None, fs3)
             \<and> fs3 t \<noteq> None
             \<longrightarrow> fst (get_file env self remote_filename sink print_output print_input w) =
                   (if status then Inr True else Inl (IOError (stderr out))))
          \<and> (open_file_io env sink fs1 = (Some e, fs2)
             \<and> fs2 t \<noteq> None
             \<longrightarrow> fst (get_file env self remote_filename sink print_output print_input w) = Inl e)
          \<and> (open_file_io env sink fs1 = (None, fs2)
             \<and> fs2 t = Some b
             \<and> read_text b = Inr d
             \<and> write_file_io env sink (encode d) fs2 = (Some e, fs3)
             \<and> fs3 t \<noteq> None
             \<longrightarrow> fst (get_file env self remote_filename sink print_output print_input w) = Inl e))"
proof (intro conjI impI)
  let ?w0 = "w\<lparr>fs := (fs w)(t \<mapsto> []), trace := trace w @ [EvMkstemp t]\<rparr>"
  let ?probe = "''appjail cmd local '' @ j @ '' pwd''"
  let ?put = "StringCommand [Raw ''cp'', Raw t, Raw (root @ ''/'' @ remote_filename)]"
  let ?get = "StringCommand [Raw ''cp'', Raw (root @ ''/'' @ remote_filename), Raw t]"
  let ?w2 = "?w0\<lparr>fs := fs1,
                  trace := trace ?w0 @ [EvShell ?probe, EvRun ?get print_output print_input []]\<rparr>"
  have gf: "get_file env self remote_filename sink print_output print_input w =
          finally_remove (self_host self) ''file downloaded from jail: '' remote_filename t
            print_output
            (get_file_try env self remote_filename sink print_output print_input t ?w0)"
    by (simp add: get_file_def mkstemp_ok [OF assms(1,2)])
  {
    assume a: "read_file_io env source ((fs w)(t \<mapsto> [])) = Inr d0
          \<and> inner_run_shell_command env ?put print_output print_input []
               ((fs w)(t \<mapsto> encode d0)) = (Inr (status0, out0), fs0)
          \<and> fs0 t \<noteq> None"
    have "put_file_try env self source remote_filename print_output print_input t ?w0 =
           local_run_shell_command env ?put print_output print_input []
             (?w0\<lparr>fs := (fs ?w0)(t \<mapsto> encode d0),
                 trace := trace ?w0 @ [EvFileIORead source, EvWrite t (encode d0),
                                      EvShell ?probe]\<rparr>)"
      by (rule put_file_try_to_copy) (use assms a in simp_all)
    also have "\<dots> = (Inr (status0, out0),
                 ?w0\<lparr>fs := fs0,
                     trace := trace ?w0 @ [EvFileIORead source, EvWrite t (encode d0),
                                      EvShell ?probe,
                                      EvRun ?put print_output print_input []]\<rparr>)"
      using a by (simp add: local_run_shell_command_def log_event_def)
    finally show "fst (put_file env self source remote_filename print_output print_input w) =
                (if status0 then Inr True else Inl (IOError (stderr out0)))"
      using a by (simp add: put_file_def mkstemp_ok [OF assms(1,2)] finally_remove_present)
  }
  assume c: "inner_run_shell_command env ?get print_output print_input [] ((fs w)(t \<mapsto> []))
             = (Inr (status, out), fs1)
          \<and> fs1 t \<noteq> None"
  have gt: "get_file_try env self remote_filename sink print_output print_input t ?w0 =
           (case write_back env t sink ?w2 of
              (Some e, w3) \<Rightarrow> (Inl e, w3)
            | (None, w3) \<Rightarrow> (Inr (status, out), w3))"
    by (rule get_file_try_to_write_back [where root = root and j = j and ?fs1.0 = fs1])
       (use assms c in simp_all)
  {
    assume a: "open_file_io env sink fs1 = (None, fs2)
             \<and> fs2 t = Some b
             \<and> read_text b = Inr d
             \<and> write_file_io env sink (encode d) fs2 = (None, fs3)
             \<and> fs3 t \<noteq> None"
    have "write_back env t sink ?w2 =
           (None, ?w2\<lparr>fs := fs3,
                 trace := trace ?w2 @ [EvFileIOOpen sink, EvRead t, EvFileIOWrite sink (encode d)]\<rparr>)"
      by (rule write_back_write [where b = b and ?fs2.0 = fs2]) (use a c in simp_all)
    then show "fst (get_file env self remote_filename sink print_output print_input w) =
                   (if status then Inr True else Inl (IOError (stderr out)))"
      using a by (simp add: gf gt finally_remove_present)
  }
  {
    assume a: "open_file_io env sink fs1 = (Some e, fs2) \<and> fs2 t \<noteq> None"
    have "write_back env t sink ?w2 =
           (Some e, ?w2\<lparr>fs := fs2, trace := trace ?w2 @ [EvFileIOOpen sink]\<rparr>)"
      by (rule write_back_open_raises) (use a c in simp_all)
    then show "fst (get_file env self remote_filename sink print_output print_input w) = Inl e"
      using a by (simp add: gf gt finally_remove_raised)
  }
  {
    assume a: "open_file_io env sink fs1 = (None, fs2)
             \<and> fs2 t = Some b
             \<and> read_text b = Inr d
             \<and> write_file_io env sink (encode d) fs2 = (Some e, fs3)
             \<and> fs3 t \<noteq> None"
    have "write_back env t sink ?w2 =
           (Some e, ?w2\<lparr>fs := fs3,
                 trace := trace ?w2 @ [EvFileIOOpen sink, EvRead t, EvFileIOWrite sink (encode d)]\<rparr>)"
      by (rule write_back_write [where b = b and ?fs2.0 = fs2]) (use a c in simp_all)
    then show "fst (get_file env self remote_filename sink print_output print_input w) = Inl e"
      using a by (simp add: gf gt finally_remove_raised)
  }
qed

theorem C5_transfer_error_witness:
  "fst (put_file (test_env cp_popen) connected (Filename ''not-a-file'') ''not-another-file''
          False False test_world) = Inr True
   \<and> fst (get_file (test_env cp_popen) connected ''nofile'' (Filename ''out'') False False
          precious_world) =
     Inl (IOError [''cp: /not-a-jail/nofile: No such file or directory''])
   \<and> fst (get_file (test_env cp_popen) connected ''motd'' (Filename []) False False
          motd_world) = Inl (FileNotFoundError [])
   \<and> fst (get_file (test_env cp_popen) connected ''nofile'' (FileObject 0) False False
          precious_world) = Inl (OtherError ''I/O operation on closed file'')"
  using C5_transfer_error [where env = "test_env cp_popen" and w = test_world
      and t = "''__tempfile__''" and self = connected and j = "''not-a-jail''"
      and root = "''/not-a-jail''" and source = "Filename ''not-a-file''"
      and remote_filename = "''not-another-file''"
      and print_output = False and print_input = False
      and ?d0.0 = "Bytes ''test!''" and ?status0.0 = True
      and ?out0.0 = "\<lparr>stdout = [], stderr = [], exit_code = 0\<rparr>"
      and ?fs0.0 = "(fs test_world)(''__tempfile__'' \<mapsto> ''test!'',
                       ''/not-a-jail/not-another-file'' \<mapsto> ''test!'')"]
    C5_transfer_error [where env = "test_env cp_popen" and w = precious_world
      and t = "''__tempfile__''" and self = connected and j = "''not-a-jail''"
      and root = "''/not-a-jail''" and remote_filename = "''nofile''"
      and print_output = False and print_input = False
      and status = False
      and out = "\<lparr>stdout = [], stderr = [''cp: /not-a-jail/nofile: No such file or directory''],
                  exit_code = 1\<rparr>"
      and ?fs1.0 = "(fs precious_world)(''__tempfile__'' \<mapsto> [])"
      and sink = "Filename ''out''"
      and ?fs2.0 = "(fs precious_world)(''__tempfile__'' \<mapsto> [], ''out'' \<mapsto> [])"
      and b = "[]" and d = "Str []"
      and ?fs3.0 = "(fs precious_world)(''__tempfile__'' \<mapsto> [], ''out'' \<mapsto> [])"]
    C5_transfer_error [where env = "test_env cp_popen" and w = motd_world
      and t = "''__tempfile__''" and self = connected and j = "''not-a-jail''"
      and root = "''/not-a-jail''" and remote_filename = "''motd''"
      and print_output = False and print_input = False
      and status = True
      and out = "\<lparr>stdout = [], stderr = [], exit_code = 0\<rparr>"
      and ?fs1.0 = "(fs motd_world)(''__tempfile__'' \<mapsto> ''welcome'')"
      and sink = "Filename []"
      and e = "FileNotFoundError []"
      and ?fs2.0 = "(fs motd_world)(''__tempfile__'' \<mapsto> ''welcome'')"]
    C5_transfer_error [where env = "test_env cp_popen" and w = precious_world
      and t = "''__tempfile__''" and self = connected and j = "''not-a-jail''"
      and root = "''/not-a-jail''" and remote_filename = "''nofile''"
      and print_output = False and print_input = False
      and status = False
      and out = "\<lparr>stdout = [], stderr = [''cp: /not-a-jail/nofile: No such file or directory''],
                  exit_code = 1\<rparr>"
      and ?fs1.0 = "(fs precious_world)(''__tempfile__'' \<mapsto> [])"
      and sink = "FileObject 0"
      and ?fs2.0 = "(fs precious_world)(''__tempfile__'' \<mapsto> [])"
      and b = "[]" and d = "Str []"
      and e = "OtherError ''I/O operation on closed file''"
      and ?fs3.0 = "(fs precious_world)(''__tempfile__'' \<mapsto> [])"]
  by (simp add: test_env_def precious_world_def test_world_def motd_world_def connected_def
        fake_jail_shell_def local_connector_run_shell_command_def cp_popen_def
        success_exit_codes_def path_open_def path_write_def path_read_def read_text_def)

text \<open>
  C5 as stated fails for \<^verbatim>\<open>get_file\<close>. The remote file exists and the copy succeeds with
  exit code 0; the sink is a closed file object, so writing to it raises, and the call
  neither returns true nor raises the transfer error.
\<close>

theorem C5_counterexample:
  "fst (inner_run_shell_command (test_env cp_popen)
          (StringCommand [Raw ''cp'', Raw ''/not-a-jail/motd'', Raw ''__tempfile__''])
          False False [] ((fs motd_world)(''__tempfile__'' \<mapsto> []))) =
     Inr (True, \<lparr>stdout = [], stderr = [], exit_code = 0\<rparr>)
   \<and> fst (get_file (test_env cp_popen) connected ''motd'' (FileObject 0) False False
            motd_world) = Inl (OtherError ''I/O operation on closed file'')
   \<and> trace (snd (get_file (test_env cp_popen) connected ''motd'' (FileObject 0) False False
            motd_world)) =
     [EvMkstemp ''__tempfile__'', EvShell ''appjail cmd local not-a-jail pwd'',
      EvRun (StringCommand [Raw ''cp'', Raw ''/not-a-jail/motd'', Raw ''__tempfile__''])
        False False [],
      EvFileIOOpen (FileObject 0), EvRead ''__tempfile__'',
      EvFileIOWrite (FileObject 0) ''welcome'', EvRemove ''__tempfile__'']"
  by (simp add: get_file_def mkstemp_def get_file_try_def write_back_def finally_remove_def
        os_remove_def local_shell_def local_run_shell_command_def
        local_connector_run_shell_command_def log_event_def Let_def test_env_def motd_world_def
        connected_def path_open_def path_write_def fake_jail_shell_def cp_popen_def
        success_exit_codes_def read_text_def byte_in_def)

text \<open>
  C6. When the status fact says the service is started, \<^verbatim>\<open>service\<close> with \<^verbatim>\<open>SRV_STARTED\<close>
  yields no command and raises nothing: it reports a no-op (that the service is already
  started, or, when the script fact is false, that there is no such script). When the
  parameter has a value and \<^verbatim>\<open>overwrite\<close> is false, \<^verbatim>\<open>sysrc\<close> with \<^verbatim>\<open>SYSRC_SET\<close> reports a
  no-op as well.
\<close>

theorem C6_idempotent_noops:
  "(truthy (ServiceStatus f srvname jail_name) \<longrightarrow>
      service f srvname jail_name (Some SRV_STARTED) command environment verbose =
        Inr (Noop (if truthy (ServiceScript f srvname jail_name)
                   then ''Service '' @ apostrophe @ srvname @ apostrophe @ '' already started''
                   else ''Cannot find rc(8) script '' @ apostrophe @ srvname @ apostrophe)))
   \<and> (\<not> overwrite \<and> truthy (Sysrc g parameter sysrc_jail) \<longrightarrow>
      sysrc g parameter val sysrc_jail (Some SYSRC_SET) overwrite =
        Inr (Noop (''sysrc(8) parameter '' @ apostrophe @ parameter @ apostrophe
                   @ '' already set'')))"
  by (simp add: service_def sysrc_def)

theorem C6_idempotent_noops_witness:
  "service running ''beanstalkd'' None (Some SRV_STARTED) CommandNone None False =
     Inr (Noop (''Service '' @ apostrophe @ ''beanstalkd'' @ apostrophe @ '' already started''))
   \<and> sysrc running ''beanstalkd_enable'' ''YES'' None (Some SYSRC_SET) False =
     Inr (Noop (''sysrc(8) parameter '' @ apostrophe @ ''beanstalkd_enable'' @ apostrophe
                @ '' already set''))"
  using C6_idempotent_noops [where f = running and srvname = "''beanstalkd''"
      and jail_name = None and command = CommandNone and environment = None and verbose = False
      and overwrite = False and g = running and parameter = "''beanstalkd_enable''"
      and sysrc_jail = None and val = "''YES''"]
  by (simp add: running_def)

text \<open>
  C7 (amended). When the options are accepted and the connector is connected,
  \<^verbatim>\<open>run_shell_command\<close> forwards to the inner connector exactly the extracted control
  arguments (\<^verbatim>\<open>local_arguments\<close>), and synthesizes the in-context command from exactly the
  options that extraction leaves behind. The two parts are the options with a control name
  and the options without one: they share no key and together are the options given.
\<close>

theorem C7_options_routing:
  assumes "extract_control_arguments env arguments = Inr (local_arguments, rest)"
    and "self_jail self = Some j"
  shows "run_shell_command env self command print_output print_input arguments w =
           local_run_shell_command env
             (StringCommand (jexec_args (data (self_host self)) j
                (QuoteString (QCommand
                   (make_unix_command_for_host env (self_host self) command rest)))))
             print_output print_input local_arguments w
         \<and> local_arguments = filter (\<lambda>kv. fst kv \<in> set (control_argument_names env)) arguments
         \<and> rest = filter (\<lambda>kv. fst kv \<notin> set (control_argument_names env)) arguments
         \<and> fst ` set local_arguments \<inter> fst ` set rest = {}
         \<and> set local_arguments \<union> set rest = set arguments"
proof -
  note parts = extract_parts [OF assms(1)]
  have "fst ` set local_arguments \<inter> fst ` set rest = {}"
    unfolding parts by auto
  moreover have "set local_arguments \<union> set rest = set arguments"
    unfolding parts by auto
  ultimately show ?thesis
    using run_shell_command_forward [OF assms] parts by blast
qed

theorem C7_options_routing_witness:
  "run_shell_command (test_env (fake_popen 1)) connected (StringCommand [Raw ''echo'', Raw ''hoi''])
       False False [(''_sudo'', VBool True), (''_success_exit_codes'', VInts [1])] empty_world =
     local_run_shell_command (test_env (fake_popen 1))
       (StringCommand
          [Raw ''appjail'', Raw ''cmd'', Raw ''jexec'', Raw ''not-a-jail'', Raw ''sh'', Raw ''-c'',
           QuoteString (QCommand (StringCommand
             [Raw ''sudo'', Raw ''-H'', Raw ''-n'', Raw ''sh'', Raw ''-c'',
              QuoteString (QCommand (StringCommand [Raw ''echo'', Raw ''hoi'']))]))])
       False False [(''_success_exit_codes'', VInts [1])] empty_world"
  using C7_options_routing [of "test_env (fake_popen 1)"
      "[(''_sudo'', VBool True), (''_success_exit_codes'', VInts [1])]"
      "[(''_success_exit_codes'', VInts [1])]" "[(''_sudo'', VBool True)]"
      connected "''not-a-jail''" "StringCommand [Raw ''echo'', Raw ''hoi'']" False False empty_world]
  by (simp add: extract_control_arguments_def test_env_def connected_def not_a_jail_def
        sh_wrap_def jexec_args_shape flag_set_def name_set_def)

text \<open>
  C7 as stated fails. With \<^verbatim>\<open>_sudo=True, _success_exit_codes=[1]\<close> the extraction leaves
  \<^verbatim>\<open>_sudo\<close> behind, yet the inner connector is called with \<^verbatim>\<open>_success_exit_codes\<close> alone,
  and \<^verbatim>\<open>_sudo\<close> has gone into the synthesized command.
\<close>

theorem C7_counterexample:
  "extract_control_arguments (test_env (fake_popen 1))
       [(''_sudo'', VBool True), (''_success_exit_codes'', VInts [1])] =
     Inr ([(''_success_exit_codes'', VInts [1])], [(''_sudo'', VBool True)])
   \<and> trace (snd (run_shell_command (test_env (fake_popen 1)) connected
          (StringCommand [Raw ''echo'', Raw ''hoi'']) False False
          [(''_sudo'', VBool True), (''_success_exit_codes'', VInts [1])] empty_world)) =
     [EvRun (StringCommand
          [Raw ''appjail'', Raw ''cmd'', Raw ''jexec'', Raw ''not-a-jail'', Raw ''sh'', Raw ''-c'',
           QuoteString (QCommand (StringCommand
             [Raw ''sudo'', Raw ''-H'', Raw ''-n'', Raw ''sh'', Raw ''-c'',
              QuoteString (QCommand (StringCommand [Raw ''echo'', Raw ''hoi'']))]))])
        False False [(''_success_exit_codes'', VInts [1])]]
   \<and> trace (snd (run_shell_command (test_env (fake_popen 1)) connected
          (StringCommand [Raw ''echo'', Raw ''hoi'']) False False
          [(''_sudo'', VBool True), (''_success_exit_codes'', VInts [1])] empty_world)) \<noteq>
     [EvRun (StringCommand
          [Raw ''appjail'', Raw ''cmd'', Raw ''jexec'', Raw ''not-a-jail'', Raw ''sh'', Raw ''-c'',
           QuoteString (QCommand (StringCommand
             [Raw ''sudo'', Raw ''-H'', Raw ''-n'', Raw ''sh'', Raw ''-c'',
              QuoteString (QCommand (StringCommand [Raw ''echo'', Raw ''hoi'']))]))])
        False False [(''_sudo'', VBool True)]]"
  by (simp add: extract_control_arguments_def test_env_def connected_def not_a_jail_def
        sh_wrap_def jexec_args_shape flag_set_def name_set_def run_shell_command_def
        trace_local_run_shell_command empty_world_def)





text \<open>
  C10. With \<^verbatim>\<open>SRV_CUSTOM\<close> and a command that is a string, the command line ends, after the
  quoted service name, with one quoted bit for each character of the string, in order;
  unless the string has exactly one character, that is not the single quoted bit holding
  the whole string.
\<close>

theorem C10_custom_string_per_character:
  "truthy (ServiceScript f srvname jail_name) \<longrightarrow>
     service f srvname jail_name (Some SRV_CUSTOM) (CommandStr s) environment verbose =
       Inr (Yield (StringCommand
         (service_args jail_name environment verbose
          @ [QuoteString (QStr srvname)]
          @ map (\<lambda>c. QuoteString (QStr [c])) s)))
     \<and> (length s \<noteq> 1 \<longrightarrow>
          service f srvname jail_name (Some SRV_CUSTOM) (CommandStr s) environment verbose \<noteq>
            Inr (Yield (StringCommand
              (service_args jail_name environment verbose
               @ [QuoteString (QStr srvname), QuoteString (QStr s)]))))"
proof (intro impI conjI)
  assume a: "truthy (ServiceScript f srvname jail_name)"
  then show "service f srvname jail_name (Some SRV_CUSTOM) (CommandStr s) environment verbose =
       Inr (Yield (StringCommand
         (service_args jail_name environment verbose
          @ [QuoteString (QStr srvname)]
          @ map (\<lambda>c. QuoteString (QStr [c])) s)))"
    by (simp add: service_def)
  assume "length s \<noteq> 1"
  then have "map (\<lambda>c. QuoteString (QStr [c])) s \<noteq> [QuoteString (QStr s)]"
    by (cases s) auto
  with a show "service f srvname jail_name (Some SRV_CUSTOM) (CommandStr s) environment verbose \<noteq>
            Inr (Yield (StringCommand
              (service_args jail_name environment verbose
               @ [QuoteString (QStr srvname), QuoteString (QStr s)])))"
    by (simp add: service_def)
qed

theorem C10_custom_string_per_character_witness:
  "service running ''sopel'' None (Some SRV_CUSTOM) (CommandStr ''configure'') None False =
     Inr (Yield (StringCommand
       [Raw ''service'', QuoteString (QStr ''sopel''),
        QuoteString (QStr ''c''), QuoteString (QStr ''o''), QuoteString (QStr ''n''),
        QuoteString (QStr ''f''), QuoteString (QStr ''i''), QuoteString (QStr ''g''),
        QuoteString (QStr ''u''), QuoteString (QStr ''r''), QuoteString (QStr ''e'')]))"
  using C10_custom_string_per_character [where f = running and srvname = "''sopel''"
      and jail_name = None and s = "''configure''" and environment = None and verbose = False]
  by (simp add: running_def service_args_def)

end
